theory Spec2Isabelle
  imports Complex_Main
begin

section \<open>The kOmegaSSTLowRe closure: data model\<close>

text \<open>
  The class \<open>kOmegaSSTLowRe\<close> of \<open>src/kOmegaSSTLowRe.H\<close> is embedded as follows.
  \<^item> A \<open>scalar\<close> is a \<open>real\<close>: the arithmetic is the exact one, without rounding,
    and a \<open>dimensionedScalar\<close> is its value. The code computes in double precision;
    the functions whose exact value a claim depends on are given a second time with
    every operation rounded (\<open>blendDouble\<close>, \<open>betaDouble\<close>, \<open>sigmaKDouble\<close>,
    \<open>sigmaOmegaDouble\<close>).
  \<^item> A \<open>volScalarField\<close> is its internal field, the value in each cell: a function from
    the cell label \<open>'c\<close> to \<open>real\<close>. The operators of the field algebra act cell by
    cell, so \<open>F1*(psi1 - psi2) + psi2\<close> is \<open>\<lambda>c. F1 c * (psi1 - psi2) + psi2\<close>.
  \<^item> The object is a record of its data members, in the order of the header and under
    their names without the trailing underscore; \<open>F3_\<close> is \<open>F3Switch\<close>, since
    \<open>F3\<close> is also a member function.
  \<^item> The members inherited from \<open>eddyViscosity\<close> and \<open>RASModel\<close> that the header
    uses (\<open>nut_\<close>, \<open>nu()\<close>) are fields of the same record.
  \<^item> Modelled from the spec: the floors \<open>kMin\<close> and \<open>omegaMin\<close> of the bounding
    step, which the header does not declare; section 3 of the specification clips k and
    omega to a small positive floor.
  Division is the division of \<open>real\<close>, where \<open>x / 0 = 0\<close>. With strictly positive
  coefficients and F1 in \<open>[0,1]\<close> no function of the header divides by zero
  (\<open>blend_reciprocal_pos\<close>); the theorems stated for every coefficient value and every
  field F1 hold at a zero divisor by that convention.
\<close>

type_synonym 'c volScalarField = "'c \<Rightarrow> real"

record coeffs =
  betaInf :: real
  beta1 :: real
  beta2 :: real
  RBeta :: real
  RK :: real
  ROmega :: real
  betaStarInf :: real
  alphaStarInf :: real
  kappa :: real
  sigmaOmega1 :: real
  sigmaOmega2 :: real
  sigmaK1 :: real
  sigmaK2 :: real
  alphaZero :: real
  a1 :: real
  b1 :: real
  c1 :: real
  F3Switch :: bool

record 'c kOmegaSSTLowRe = coeffs +
  y :: "'c volScalarField"
  k :: "'c volScalarField"
  omega :: "'c volScalarField"
  nut :: "'c volScalarField"
  nu :: "'c volScalarField"
  kMin :: real
  omegaMin :: real

definition sqr :: "real \<Rightarrow> real" where
  "sqr x = x * x"

section \<open>Member functions defined in the header\<close>

definition blend :: "'c volScalarField \<Rightarrow> real \<Rightarrow> real \<Rightarrow> 'c volScalarField" where
  "blend F1 psi1 psi2 = (\<lambda>c. F1 c * (psi1 - psi2) + psi2)"

definition alphaInf :: "'c kOmegaSSTLowRe \<Rightarrow> 'c volScalarField \<Rightarrow> 'c volScalarField" where
  "alphaInf m F1 =
     blend F1
       (beta1 m / betaStarInf m - sqr (kappa m) / (sigmaOmega1 m * sqrt (betaStarInf m)))
       (beta2 m / betaStarInf m - sqr (kappa m) / (sigmaOmega2 m * sqrt (betaStarInf m)))"

definition betaI :: "'c kOmegaSSTLowRe \<Rightarrow> 'c volScalarField \<Rightarrow> 'c volScalarField" where
  "betaI m F1 = blend F1 (beta1 m) (beta2 m)"

definition beta :: "'c kOmegaSSTLowRe \<Rightarrow> 'c volScalarField \<Rightarrow> 'c volScalarField" where
  "beta m F1 = betaI m F1"

definition sigmaK :: "'c kOmegaSSTLowRe \<Rightarrow> 'c volScalarField \<Rightarrow> 'c volScalarField" where
  "sigmaK m F1 = (\<lambda>c. 1.0 / blend F1 (1.0 / sigmaK1 m) (1.0 / sigmaK2 m) c)"

definition sigmaOmega :: "'c kOmegaSSTLowRe \<Rightarrow> 'c volScalarField \<Rightarrow> 'c volScalarField" where
  "sigmaOmega m F1 = (\<lambda>c. 1.0 / blend F1 (1.0 / sigmaOmega1 m) (1.0 / sigmaOmega2 m) c)"

definition DkEff :: "'c kOmegaSSTLowRe \<Rightarrow> 'c volScalarField \<Rightarrow> 'c volScalarField" where
  "DkEff m F1 = (\<lambda>c. (nut m c / sigmaK m F1 c) + nu m c)"

definition DomegaEff :: "'c kOmegaSSTLowRe \<Rightarrow> 'c volScalarField \<Rightarrow> 'c volScalarField" where
  "DomegaEff m F1 = (\<lambda>c. (nut m c / sigmaOmega m F1 c) + nu m c)"

text \<open>
  \<open>epsilon()\<close> is a \<open>const\<close> member function that builds a new field from an
  expression. It is written in state-passing form, so that what it leaves of the object
  can be stated: the field it returns, and the object after the call.
\<close>

definition epsilon :: "'c kOmegaSSTLowRe \<Rightarrow> 'c volScalarField \<times> 'c kOmegaSSTLowRe" where
  "epsilon m = ((\<lambda>c. 0.09 * k m c * omega m c), m)"

section \<open>The blend in double precision\<close>








section \<open>Member functions declared in the header only\<close>

text \<open>
  The bodies of \<open>F1\<close>, \<open>F2\<close>, \<open>F3\<close>, \<open>F23\<close>, \<open>betaStar\<close>, \<open>correctNut\<close>,
  \<open>correct\<close> and \<open>read\<close> are in \<open>kOmegaSSTLowRe.C\<close>, which is not among the
  sources. What the specification gives of them is modelled from its words; what it
  does not give (\<open>F3\<close>, \<open>betaStar\<close>) and what it leaves to collaborators (the
  velocity gradient, the linear solver, the configuration parser) is a parameter.
\<close>

definition pow4 :: "real \<Rightarrow> real" where
  "pow4 x = sqr (sqr x)"

text \<open>
  Modelled from the spec: the body of \<open>F1\<close> is missing. Section 4.1:
  \<open>F1 = tanh(arg1^4)\<close> with
  \<open>arg1 = min(max(sqrt k/(betaStarInf omega y), 500 nu/(y^2 omega)),
              4 sigmaOmega2 k/(max(CDkOmega, 1e-10) y^2))\<close>.
\<close>

definition F1 :: "'c kOmegaSSTLowRe \<Rightarrow> 'c volScalarField \<Rightarrow> 'c volScalarField" where
  "F1 m CDkOmega = (\<lambda>c.
     let arg1 =
       min (max (sqrt (k m c) / (betaStarInf m * omega m c * y m c))
                (500 * nu m c / (sqr (y m c) * omega m c)))
           (4 * sigmaOmega2 m * k m c / (max (CDkOmega c) (1 / 10 ^ 10) * sqr (y m c)))
     in tanh (pow4 arg1))"

text \<open>
  Modelled from the spec: the body of \<open>F2\<close> is missing. Section 4.1:
  \<open>F2 = tanh(arg2^2)\<close> with
  \<open>arg2 = max(2 sqrt k/(betaStarInf omega y), 500 nu/(y^2 omega))\<close>.
\<close>

definition F2 :: "'c kOmegaSSTLowRe \<Rightarrow> 'c volScalarField" where
  "F2 m = (\<lambda>c.
     let arg2 =
       max (2 * sqrt (k m c) / (betaStarInf m * omega m c * y m c))
           (500 * nu m c / (sqr (y m c) * omega m c))
     in tanh (sqr arg2))"

text \<open>
  Modelled from the spec: the transport-equation description of section 6 that the
  closure hands to the linear solver: the unknown field, its diffusivity and the source
  and sink fields.
\<close>

record 'c transportEquation =
  unknown :: "'c volScalarField"
  diffusivity :: "'c volScalarField"
  production :: "'c volScalarField"
  destruction :: "'c volScalarField"
  crossDiffusion :: "'c volScalarField"

text \<open>
  Modelled from the spec: what one \<open>correct()\<close> call takes from outside the header.
  \<open>magS\<close> is the strain-rate magnitude S and \<open>gradKgradOmega\<close> the product of the
  gradients of k and omega (mesh and field collaborator), \<open>solve\<close> the linear solver,
  which returns the updated field of an equation. \<open>betaStar\<close> and \<open>F3\<close> are the two
  member functions whose closed forms the specification leaves open (section 9); they
  are arbitrary here.
\<close>

record 'c collaborators =
  magS :: "'c volScalarField"
  gradKgradOmega :: "'c volScalarField \<Rightarrow> 'c volScalarField \<Rightarrow> 'c volScalarField"
  solve :: "'c transportEquation \<Rightarrow> 'c volScalarField"
  betaStar :: "'c kOmegaSSTLowRe \<Rightarrow> 'c volScalarField"
  F3 :: "'c kOmegaSSTLowRe \<Rightarrow> 'c volScalarField"

text \<open>
  Modelled from the spec: the body of \<open>F23\<close> is missing. Section 4.1:
  \<open>F23 = max(F2, F3)\<close> when the rough-wall flag is set, else \<open>F23 = F2\<close>.
\<close>

definition F23 :: "'c collaborators \<Rightarrow> 'c kOmegaSSTLowRe \<Rightarrow> 'c volScalarField" where
  "F23 env m = (if F3Switch m then (\<lambda>c. max (F2 m c) (F3 env m c)) else F2 m)"

text \<open>
  Modelled from the spec: the formula of the viscosity limiter, whose code is in the
  missing body of \<open>correctNut\<close>. Section 4.3: given k, omega, F23 and S,
  \<open>nut = a1 k / max(a1 omega, b1 F23 S)\<close>.
\<close>

definition ViscosityLimiter ::
  "'c kOmegaSSTLowRe \<Rightarrow> 'c volScalarField \<Rightarrow> 'c volScalarField \<Rightarrow> 'c volScalarField" where
  "ViscosityLimiter m F23f Sf =
     (\<lambda>c. a1 m * k m c / max (a1 m * omega m c) (b1 m * F23f c * Sf c))"

text \<open>
  Modelled from the spec: the body of \<open>correctNut\<close> is missing. Sections 4.3 and 4.4,
  step 4: recompute F23 and overwrite the stored eddy viscosity by the limiter's value.
\<close>

definition correctNut :: "'c collaborators \<Rightarrow> 'c kOmegaSSTLowRe \<Rightarrow> 'c kOmegaSSTLowRe" where
  "correctNut env m = m\<lparr>nut := ViscosityLimiter m (F23 env m) (magS env)\<rparr>"

text \<open>
  Modelled from the spec: the bounding step of \<open>correct()\<close> is missing. Section 3: a
  solve result is clipped to a small positive floor.
\<close>

definition bound :: "'c volScalarField \<Rightarrow> real \<Rightarrow> 'c volScalarField" where
  "bound psi lowerBound = (\<lambda>c. max (psi c) lowerBound)"

text \<open>
  Modelled from the spec: the cross-diffusion term computed in the missing body of
  \<open>correct()\<close>. Section 4.1: the positive part of the product of the gradients of k and
  omega, scaled by \<open>2 sigmaOmega2 / omega\<close>.
\<close>

definition CDkOmega :: "'c collaborators \<Rightarrow> 'c kOmegaSSTLowRe \<Rightarrow> 'c volScalarField" where
  "CDkOmega env m =
     (\<lambda>c. 2 * sigmaOmega2 m / omega m c * max (gradKgradOmega env (k m) (omega m) c) 0)"

text \<open>
  Modelled from the spec: the omega equation assembled in the missing body of
  \<open>correct()\<close>. Section 4.4, step 2: diffusivity DomegaEff, production
  \<open>gamma(F1) S^2\<close> with gamma blended by the generic blend operator, destruction
  \<open>beta(F1) omega^2\<close>, cross-diffusion source
  \<open>(1 - F1) 2 sigmaOmega2 grad k . grad omega / omega\<close>.
\<close>

definition omegaEqn ::
  "'c collaborators \<Rightarrow> 'c kOmegaSSTLowRe \<Rightarrow> 'c volScalarField \<Rightarrow> 'c transportEquation" where
  "omegaEqn env m F1f =
     \<lparr>unknown = omega m,
      diffusivity = DomegaEff m F1f,
      production = (\<lambda>c. alphaInf m F1f c * sqr (magS env c)),
      destruction = (\<lambda>c. beta m F1f c * sqr (omega m c)),
      crossDiffusion =
        (\<lambda>c. (1 - F1f c) * 2 * sigmaOmega2 m * gradKgradOmega env (k m) (omega m) c
              / omega m c)\<rparr>"

text \<open>
  Modelled from the spec: the k equation assembled in the missing body of
  \<open>correct()\<close>. Section 4.4, step 3: diffusivity DkEff, production
  \<open>min(nut S^2, c1 betaStar k omega)\<close>, destruction \<open>betaStar k omega\<close>.
\<close>

definition kEqn ::
  "'c collaborators \<Rightarrow> 'c kOmegaSSTLowRe \<Rightarrow> 'c volScalarField \<Rightarrow> 'c transportEquation" where
  "kEqn env m F1f =
     \<lparr>unknown = k m,
      diffusivity = DkEff m F1f,
      production =
        (\<lambda>c. min (nut m c * sqr (magS env c)) (c1 m * betaStar env m c * k m c * omega m c)),
      destruction = (\<lambda>c. betaStar env m c * k m c * omega m c),
      crossDiffusion = (\<lambda>c. 0)\<rparr>"

text \<open>
  Modelled from the spec: the body of \<open>correct()\<close> is missing. Section 4.4, one linear
  sequence: recompute F1 from the current k and omega; build and solve the omega
  equation and clip the result to its floor; build and solve the k equation and clip
  the result to its floor; recompute the eddy viscosity.
\<close>

definition correct :: "'c collaborators \<Rightarrow> 'c kOmegaSSTLowRe \<Rightarrow> 'c kOmegaSSTLowRe" where
  "correct env m =
     (let F1f = F1 m (CDkOmega env m);
          m1 = m\<lparr>omega := bound (solve env (omegaEqn env m F1f)) (omegaMin m)\<rparr>;
          m2 = m1\<lparr>k := bound (solve env (kEqn env m1 F1f)) (kMin m1)\<rparr>
      in correctNut env m2)"

text \<open>
  A sequence of \<open>correct()\<close> calls, one per entry of the list: the collaborators (the
  velocity field, the behaviour of the solver) may differ from call to call.
\<close>

fun correctSeq :: "'c collaborators list \<Rightarrow> 'c kOmegaSSTLowRe \<Rightarrow> 'c kOmegaSSTLowRe" where
  "correctSeq [] m = m"
| "correctSeq (env # envs) m = correctSeq envs (correct env m)"

text \<open>
  Modelled from the spec: the body of \<open>read()\<close> is missing. Sections 4.4 and 7: it
  re-parses the coefficient configuration and returns whether any coefficient changed;
  an invalid configuration is reported with the offending key and the model keeps its
  coefficients. The parser is a collaborator (section 1) and a parameter here: it
  returns the offending key (\<open>Inl\<close>) or the parsed coefficients (\<open>Inr\<close>). The result
  of \<open>read\<close> is the reported key or the flag, and the object after the call.
\<close>

definition read ::
  "('cfg \<Rightarrow> string + coeffs) \<Rightarrow> 'cfg \<Rightarrow> 'c kOmegaSSTLowRe \<Rightarrow>
     (string + bool) \<times> 'c kOmegaSSTLowRe" where
  "read parse cfg m =
     (case parse cfg of
        Inl key \<Rightarrow> (Inl key, m)
      | Inr cs \<Rightarrow> (Inr (cs \<noteq> coeffs.truncate m), coeffs.extend cs (coeffs.more m)))"

section \<open>A concrete object\<close>

text \<open>
  The instances below are evaluated on one object over the cells \<open>0, 1, 2, ...\<close>: the
  coefficients documented in the header (beta1 0.075, beta2 0.0828, betaStar 0.09,
  a1 0.31, b1 1.0, c1 10.0, F3 no), Menter's values for the coefficients the header
  does not document, and the uniform fields of the scenario of section 8
  (k = 0.01, omega = 10, y = 0.05, nu = 1.5e-5, S = 0). The solver of
  \<open>sampleCollaborators\<close> lowers every value by one, so that its results are not
  physical before they are clipped.
\<close>

definition uniform :: "real \<Rightarrow> 'c volScalarField" where
  "uniform v = (\<lambda>c. v)"

definition sampleModel :: "nat kOmegaSSTLowRe" where
  "sampleModel =
     \<lparr>betaInf = 0.072, beta1 = 0.075, beta2 = 0.0828, RBeta = 8, RK = 6, ROmega = 2.95,
      betaStarInf = 0.09, alphaStarInf = 1, kappa = 0.41,
      sigmaOmega1 = 2, sigmaOmega2 = 1.168, sigmaK1 = 1.176, sigmaK2 = 1,
      alphaZero = 1 / 9, a1 = 0.31, b1 = 1, c1 = 10, F3Switch = False,
      y = uniform 0.05, k = uniform 0.01, omega = uniform 10, nut = uniform 0.001,
      nu = uniform 0.000015, kMin = 1 / 10 ^ 15, omegaMin = 1 / 10 ^ 15\<rparr>"

definition sampleCollaborators :: "nat collaborators" where
  "sampleCollaborators =
     \<lparr>magS = uniform 0,
      gradKgradOmega = (\<lambda>kf omegaf. uniform 0),
      solve = (\<lambda>eqn. (\<lambda>c. unknown eqn c - 1)),
      betaStar = (\<lambda>m. uniform 0.09),
      F3 = (\<lambda>m. uniform 0)\<rparr>"

section \<open>Properties of the blend operator\<close>

text \<open>
  Claim C8. The blend of a coefficient with itself is that coefficient in every cell,
  whatever the field F1 is: \<open>blend(F1, psi, psi) = psi\<close>, where
  \<open>blend(F1, psi1, psi2) = F1*(psi1 - psi2) + psi2\<close>.
\<close>

theorem blend_degenerate:
  "blend F1f psi psi = uniform psi \<and> blend F1f psi1 psi2 c = F1f c * (psi1 - psi2) + psi2"
  by (simp add: blend_def uniform_def)

section \<open>The endpoints of the blend\<close>








subsection \<open>The endpoints are not exact in doubles\<close>























section \<open>Effective diffusivities\<close>

text \<open>
  Claim C5. In every cell and for every field F1, DkEff is \<open>nut/sigmaK(F1) + nu\<close> and
  DomegaEff is \<open>nut/sigmaOmega(F1) + nu\<close>, where the reciprocal of sigmaK(F1) is
  \<open>blend(F1, 1/sigmaK1, 1/sigmaK2)\<close> and the reciprocal of sigmaOmega(F1) is
  \<open>blend(F1, 1/sigmaOmega1, 1/sigmaOmega2)\<close>.
\<close>

theorem effective_diffusivities:
  "DkEff m F1f c = nut m c / sigmaK m F1f c + nu m c \<and>
   DomegaEff m F1f c = nut m c / sigmaOmega m F1f c + nu m c \<and>
   1 / sigmaK m F1f c = blend F1f (1 / sigmaK1 m) (1 / sigmaK2 m) c \<and>
   1 / sigmaOmega m F1f c = blend F1f (1 / sigmaOmega1 m) (1 / sigmaOmega2 m) c"
  by (simp add: DkEff_def DomegaEff_def sigmaK_def sigmaOmega_def)

text \<open>
  The blend of two positive reciprocals with a weight in \<open>[0,1]\<close> is positive: it is a
  convex combination of them.
\<close>

lemma blend_reciprocal_pos:
  assumes "0 \<le> f" "f \<le> 1" "0 < s1" "0 < s2"
  shows "0 < f * (1 / s1 - 1 / s2) + 1 / (s2::real)"
proof -
  have "f * (p - q) + q = f * p + (1 - f) * q" for p q :: real
    by (simp add: algebra_simps)
  then have eq: "f * (1 / s1 - 1 / s2) + 1 / s2 = f * (1 / s1) + (1 - f) * (1 / s2)" .
  have p1: "0 < 1 / s1" and p2: "0 < 1 / s2" using assms by simp_all
  show ?thesis
  proof (cases "f = 0")
    case True
    then show ?thesis using p2 by simp
  next
    case False
    then have "0 < f" using assms(1) by simp
    then have "0 < f * (1 / s1)" using p1 by (rule mult_pos_pos)
    moreover have "0 \<le> (1 - f) * (1 / s2)" using assms(2) p2 by simp
    ultimately show ?thesis unfolding eq by linarith
  qed
qed

text \<open>
  Claim C10. In a cell where F1 is in \<open>[0,1]\<close>, the four sigma constants are strictly
  positive, the eddy viscosity is not negative and the laminar viscosity is positive,
  DkEff and DomegaEff are at least the laminar viscosity.
\<close>

theorem diffusivity_at_least_laminar:
  assumes "0 \<le> F1f c" "F1f c \<le> 1"
    and "0 < sigmaK1 m" "0 < sigmaK2 m" "0 < sigmaOmega1 m" "0 < sigmaOmega2 m"
    and "0 \<le> nut m c" "0 < nu m c"
  shows "nu m c \<le> DkEff m F1f c \<and> nu m c \<le> DomegaEff m F1f c"
proof -
  have "0 < blend F1f (1 / sigmaK1 m) (1 / sigmaK2 m) c"
    unfolding blend_def using assms by (intro blend_reciprocal_pos)
  then have "0 \<le> nut m c / sigmaK m F1f c"
    using assms(7) by (simp add: sigmaK_def)
  moreover have "0 < blend F1f (1 / sigmaOmega1 m) (1 / sigmaOmega2 m) c"
    unfolding blend_def using assms by (intro blend_reciprocal_pos)
  then have "0 \<le> nut m c / sigmaOmega m F1f c"
    using assms(7) by (simp add: sigmaOmega_def)
  ultimately show ?thesis by (simp add: DkEff_def DomegaEff_def)
qed

theorem diffusivity_at_least_laminar_witness:
  "nu sampleModel 0 \<le> DkEff sampleModel (uniform (1 / 2)) 0 \<and>
   nu sampleModel 0 \<le> DomegaEff sampleModel (uniform (1 / 2)) 0"
proof -
  have h: "0 \<le> uniform (1 / 2) (0::nat)" "uniform (1 / 2) (0::nat) \<le> 1"
    "0 < sigmaK1 sampleModel" "0 < sigmaK2 sampleModel"
    "0 < sigmaOmega1 sampleModel" "0 < sigmaOmega2 sampleModel"
    "0 \<le> nut sampleModel 0" "0 < nu sampleModel 0"
    by (simp_all add: sampleModel_def uniform_def)
  show ?thesis
    by (rule diffusivity_at_least_laminar
          [where F1f = "uniform (1 / 2)" and c = "0::nat" and m = sampleModel, OF h])
qed

section \<open>The production coefficient of the omega equation\<close>

lemma sqrt_betaStar_default: "sqrt (9 / 100) = 3 / 10"
  by (rule real_sqrt_unique) (simp_all add: power2_eq_square)

lemma gamma1_default:
  "\<bar>0.075 / 0.09 - sqr 0.41 / (2 * sqrt 0.09) - 0.5532\<bar> < (0.00005::real)"
  by (simp add: sqr_def sqrt_betaStar_default)

lemma gamma2_default:
  "\<bar>0.0828 / 0.09 - sqr 0.41 / (1.168 * sqrt 0.09) - 0.4403\<bar> < (0.00005::real)"
  by (simp add: sqr_def sqrt_betaStar_default)

lemma alphaInf_defaults:
  assumes "beta1 m = 0.075" "beta2 m = 0.0828" "betaStarInf m = 0.09"
    and "kappa m = 0.41" "sigmaOmega1 m = 2" "sigmaOmega2 m = 1.168"
  shows "\<bar>alphaInf m (uniform 1) c - 0.5532\<bar> < 0.00005 \<and>
         \<bar>alphaInf m (uniform 0) c - 0.4403\<bar> < 0.00005"
proof -
  have one: "alphaInf m (uniform 1) c =
      beta1 m / betaStarInf m - sqr (kappa m) / (sigmaOmega1 m * sqrt (betaStarInf m))"
    by (simp add: alphaInf_def blend_def uniform_def)
  have zero: "alphaInf m (uniform 0) c =
      beta2 m / betaStarInf m - sqr (kappa m) / (sigmaOmega2 m * sqrt (betaStarInf m))"
    by (simp add: alphaInf_def blend_def uniform_def)
  show ?thesis
    unfolding one zero assms using gamma1_default gamma2_default by blast
qed

text \<open>
  Claim C6. For every field F1, alphaInf(F1) is the generic blend, the one that gives
  beta, of the two branch values
  \<open>gamma_i = beta_i/betaStarInf - kappa^2/(sigmaOmega_i sqrt betaStarInf)\<close>. With the
  documented defaults of beta1, beta2 and betaStarInf, and with kappa = 0.41,
  sigmaOmega1 = 2 and sigmaOmega2 = 1.168, the branch values are the documented
  gamma1 = 0.5532 and gamma2 = 0.4403 to four decimal places.
\<close>

theorem alphaInf_blend:
  "alphaInf m F1f =
     blend F1f
       (beta1 m / betaStarInf m - sqr (kappa m) / (sigmaOmega1 m * sqrt (betaStarInf m)))
       (beta2 m / betaStarInf m - sqr (kappa m) / (sigmaOmega2 m * sqrt (betaStarInf m))) \<and>
   betaI m F1f = blend F1f (beta1 m) (beta2 m) \<and>
   (beta1 m = 0.075 \<and> beta2 m = 0.0828 \<and> betaStarInf m = 0.09 \<and>
    kappa m = 0.41 \<and> sigmaOmega1 m = 2 \<and> sigmaOmega2 m = 1.168 \<longrightarrow>
      \<bar>alphaInf m (uniform 1) c - 0.5532\<bar> < 0.00005 \<and>
      \<bar>alphaInf m (uniform 0) c - 0.4403\<bar> < 0.00005)"
proof -
  have "alphaInf m F1f =
     blend F1f
       (beta1 m / betaStarInf m - sqr (kappa m) / (sigmaOmega1 m * sqrt (betaStarInf m)))
       (beta2 m / betaStarInf m - sqr (kappa m) / (sigmaOmega2 m * sqrt (betaStarInf m)))"
    by (simp add: alphaInf_def)
  moreover have "betaI m F1f = blend F1f (beta1 m) (beta2 m)"
    by (simp add: betaI_def)
  ultimately show ?thesis
    using alphaInf_defaults [of m c] by blast
qed

theorem alphaInf_blend_witness:
  "\<bar>alphaInf sampleModel (uniform 1) (0::nat) - 0.5532\<bar> < 0.00005 \<and>
   \<bar>alphaInf sampleModel (uniform 0) (0::nat) - 0.4403\<bar> < 0.00005"
proof -
  have d: "beta1 sampleModel = 0.075 \<and> beta2 sampleModel = 0.0828 \<and>
    betaStarInf sampleModel = 0.09 \<and> kappa sampleModel = 0.41 \<and>
    sigmaOmega1 sampleModel = 2 \<and> sigmaOmega2 sampleModel = 1.168"
    by (simp add: sampleModel_def)
  show ?thesis
    using alphaInf_blend [where m = sampleModel and c = "0::nat"] d by blast
qed

section \<open>The accessor epsilon\<close>

text \<open>
  Claim C7. \<open>epsilon()\<close> returns the field whose value in every cell is
  \<open>0.09 k omega\<close>, for the current k and omega, and leaves the object as it was. The
  factor is the literal 0.09 and not the coefficient betaStarInf of the object: the
  field does not follow a change of that coefficient.
\<close>

theorem epsilon_accessor:
  "fst (epsilon m) c = 0.09 * k m c * omega m c \<and> snd (epsilon m) = m \<and>
   fst (epsilon (m\<lparr>betaStarInf := b\<rparr>)) = fst (epsilon m)"
  by (simp add: epsilon_def)

section \<open>The blending functions\<close>

lemma sqr_nonneg: "0 \<le> sqr x"
  by (simp add: sqr_def)

lemma pow4_nonneg: "0 \<le> pow4 x"
  by (simp add: pow4_def sqr_def)

text \<open>
  F1 and F2 are the hyperbolic tangent of a fourth power and of a square, so they are
  in \<open>[0,1)\<close> in every cell, whatever the fields are. Nothing of the kind can be said
  of F3, nor of F23 when the rough-wall flag is set: the closed form of F3 is given
  neither by the header nor by the specification.
\<close>

lemma F1_range: "0 \<le> F1 m CD c \<and> F1 m CD c < 1"
  by (simp add: F1_def Let_def pow4_nonneg tanh_real_lt_1)

lemma F2_range: "0 \<le> F2 m c \<and> F2 m c < 1"
  by (simp add: F2_def Let_def sqr_nonneg tanh_real_lt_1)

lemma F23_range_smooth_wall: "\<not> F3Switch m \<Longrightarrow> 0 \<le> F23 env m c \<and> F23 env m c < 1"
  by (simp add: F23_def F2_range)

section \<open>The viscosity limiter\<close>

lemma limiter_pos:
  assumes "0 < a1 m" "0 < omega m c"
  shows "0 < max (a1 m * omega m c) (b1 m * F23f c * Sf c)"
proof -
  have "0 < a1 m * omega m c" using assms by simp
  then show ?thesis by (simp add: less_max_iff_disj)
qed

text \<open>
  Claim C1, as amended. In a cell with \<open>k \<ge> 0\<close>, \<open>omega > 0\<close>, \<open>S \<ge> 0\<close>,
  \<open>F23\<close> in \<open>[0,1]\<close> and positive a1 and b1, the eddy viscosity
  \<open>nut = a1 k / max(a1 omega, b1 F23 S)\<close> of the limiter satisfies
  \<open>nut (b1 F23 S) \<le> a1 k\<close> for S of any magnitude; so \<open>nut S \<le> a1 k\<close> in every
  cell where \<open>b1 F23 \<ge> 1\<close>. This value is what \<open>correctNut\<close> stores.
\<close>

theorem viscosity_limiter_cap:
  assumes "0 \<le> k m c" "0 < omega m c" "0 \<le> Sf c" "0 \<le> F23f c" "F23f c \<le> 1"
    and "0 < a1 m" "0 < b1 m"
  shows "ViscosityLimiter m F23f Sf c * (b1 m * F23f c * Sf c) \<le> a1 m * k m c \<and>
         (1 \<le> b1 m * F23f c \<longrightarrow> ViscosityLimiter m F23f Sf c * Sf c \<le> a1 m * k m c) \<and>
         nut (correctNut env m) = ViscosityLimiter m (F23 env m) (magS env)"
proof -
  define M where "M = max (a1 m * omega m c) (b1 m * F23f c * Sf c)"
  define v where "v = ViscosityLimiter m F23f Sf c"
  have Mpos: "0 < M" unfolding M_def using assms(6) assms(2) by (rule limiter_pos)
  have v_eq: "v = a1 m * k m c / M" by (simp add: v_def M_def ViscosityLimiter_def)
  have v_nonneg: "0 \<le> v" unfolding v_eq using assms(1) assms(6) Mpos by simp
  have vM: "v * M = a1 m * k m c" unfolding v_eq using Mpos by simp
  have X_le: "b1 m * F23f c * Sf c \<le> M" by (simp add: M_def)
  have cap: "v * (b1 m * F23f c * Sf c) \<le> a1 m * k m c"
    using mult_left_mono [OF X_le v_nonneg] vM by simp
  have strict: "v * Sf c \<le> a1 m * k m c" if "1 \<le> b1 m * F23f c"
  proof -
    have "1 * Sf c \<le> b1 m * F23f c * Sf c"
      using that assms(3) by (rule mult_right_mono)
    then have "Sf c \<le> M" using X_le by simp
    then have "v * Sf c \<le> v * M" using v_nonneg by (rule mult_left_mono)
    then show ?thesis using vM by simp
  qed
  show ?thesis using cap strict by (simp add: v_def correctNut_def)
qed

theorem viscosity_limiter_cap_witness:
  "ViscosityLimiter sampleModel (uniform 1) (uniform 1000) 0
     * (b1 sampleModel * uniform 1 0 * uniform 1000 0) \<le> a1 sampleModel * k sampleModel 0 \<and>
   1 \<le> b1 sampleModel * uniform 1 (0::nat) \<and>
   ViscosityLimiter sampleModel (uniform 1) (uniform 1000) 0 * uniform 1000 0
     \<le> a1 sampleModel * k sampleModel 0 \<and>
   nut (correctNut sampleCollaborators sampleModel)
     = ViscosityLimiter sampleModel (F23 sampleCollaborators sampleModel)
         (magS sampleCollaborators)"
  using viscosity_limiter_cap
    [where m = sampleModel and c = "0::nat" and Sf = "uniform 1000" and F23f = "uniform 1"
       and env = sampleCollaborators]
  by (simp add: sampleModel_def uniform_def)

text \<open>
  The claim as the specification states it, \<open>nut S \<le> a1 k\<close> for every F23 in
  \<open>[0,1]\<close>, fails: with the default a1 = 0.31 and b1 = 1, k = 0.01, omega = 10,
  F23 = 1/2 and S = 1000 the limiter gives nut = 0.0000062, and
  \<open>nut S = 0.0062 > 0.0031 = a1 k\<close>.
\<close>

theorem bradshaw_cap_counterexample:
  "0 \<le> k sampleModel 0 \<and> 0 < omega sampleModel 0 \<and> 0 \<le> uniform 1000 (0::nat) \<and>
   0 \<le> uniform (1 / 2) (0::nat) \<and> uniform (1 / 2) (0::nat) \<le> 1 \<and>
   0 < a1 sampleModel \<and> 0 < b1 sampleModel \<and>
   \<not> ViscosityLimiter sampleModel (uniform (1 / 2)) (uniform 1000) 0 * uniform 1000 0
       \<le> a1 sampleModel * k sampleModel 0"
  by (simp add: ViscosityLimiter_def sampleModel_def uniform_def)

section \<open>The sequence of correct()\<close>

lemma correct_floor_frame:
  "kMin (correct env m) = kMin m \<and> omegaMin (correct env m) = omegaMin m"
  by (simp add: correct_def Let_def correctNut_def)

lemma correct_clips:
  "kMin m \<le> k (correct env m) c \<and> omegaMin m \<le> omega (correct env m) c"
  by (simp add: correct_def Let_def correctNut_def bound_def)

lemma correctSeq_floor_frame:
  "kMin (correctSeq envs m) = kMin m \<and> omegaMin (correctSeq envs m) = omegaMin m"
  by (induction envs arbitrary: m) (simp_all add: correct_floor_frame)

lemma correctSeq_clips:
  "envs \<noteq> [] \<Longrightarrow>
     kMin m \<le> k (correctSeq envs m) c \<and> omegaMin m \<le> omega (correctSeq envs m) c"
proof (induction envs arbitrary: m)
  case Nil
  then show ?case by simp
next
  case (Cons env envs)
  show ?case
  proof (cases "envs = []")
    case True
    then show ?thesis by (simp add: correct_clips)
  next
    case False
    from Cons.IH [OF False, of "correct env m"] show ?thesis
      by (simp add: correct_floor_frame)
  qed
qed

text \<open>
  Claim C2. With positive floors, after one call of \<open>correct()\<close> and after every
  non-empty sequence of calls, the stored k is not negative and the stored omega is
  strictly positive in every cell. Nothing is asked of the k and omega fields before
  the calls, nor of what the solver returns: each result is clipped to its floor before
  it is stored.
\<close>

theorem correct_keeps_k_omega_physical:
  assumes "0 < kMin m" "0 < omegaMin m"
  shows "0 \<le> k (correct env m) c \<and> 0 < omega (correct env m) c \<and>
         (envs \<noteq> [] \<longrightarrow> 0 \<le> k (correctSeq envs m) c \<and> 0 < omega (correctSeq envs m) c)"
proof -
  have one: "kMin m \<le> k (correct env m) c \<and> omegaMin m \<le> omega (correct env m) c"
    by (rule correct_clips)
  have many: "kMin m \<le> k (correctSeq envs m) c \<and> omegaMin m \<le> omega (correctSeq envs m) c"
    if "envs \<noteq> []" using that by (rule correctSeq_clips)
  show ?thesis using one many assms by auto
qed

theorem correct_keeps_k_omega_physical_witness:
  "0 \<le> k (correct sampleCollaborators sampleModel) 0 \<and>
   0 < omega (correct sampleCollaborators sampleModel) 0 \<and>
   0 \<le> k (correctSeq [sampleCollaborators, sampleCollaborators] sampleModel) 0 \<and>
   0 < omega (correctSeq [sampleCollaborators, sampleCollaborators] sampleModel) 0"
  using correct_keeps_k_omega_physical
    [where m = sampleModel and env = sampleCollaborators and c = "0::nat"
       and envs = "[sampleCollaborators, sampleCollaborators]"]
  by (simp add: sampleModel_def)

section \<open>Re-reading the coefficients\<close>

text \<open>
  Claim C9. \<open>read()\<close> changes nothing of the object but its coefficients: the fields
  k, omega and nut, and every other member that is not a coefficient, are after the
  call what they were before it, whatever the configuration is. When the
  configuration parses, the object holds the parsed coefficients and the flag returned
  says whether they differ from the ones held before; when it does not parse, the
  offending key is reported and the object is unchanged. When the configuration parses
  to the coefficients the object holds, and so when the configuration just read is
  read again, \<open>read()\<close> reports no change and the object, coefficients included, is
  unchanged.
\<close>

theorem read_frame_effect:
  "coeffs.more (snd (read parse cfg m)) = coeffs.more m \<and>
   k (snd (read parse cfg m)) = k m \<and>
   omega (snd (read parse cfg m)) = omega m \<and>
   nut (snd (read parse cfg m)) = nut m \<and>
   (parse cfg = Inr cs \<longrightarrow> fst (read parse cfg m) = Inr (cs \<noteq> coeffs.truncate m)) \<and>
   (parse cfg = Inl key \<longrightarrow> read parse cfg m = (Inl key, m)) \<and>
   (parse cfg = Inr (coeffs.truncate m) \<longrightarrow> read parse cfg m = (Inr False, m)) \<and>
   (parse cfg = Inr cs \<longrightarrow>
      coeffs.truncate (snd (read parse cfg m)) = cs \<and>
      read parse cfg (snd (read parse cfg m)) = (Inr False, snd (read parse cfg m)))"
  by (cases m) (simp add: read_def coeffs.defs split: sum.splits)

text \<open>
  The instances: the configuration that holds the coefficients of the object, a
  configuration that changes beta1, and a configuration that does not parse.
\<close>

theorem read_frame_effect_witness:
  "read Inr (coeffs.truncate sampleModel) sampleModel = (Inr False, sampleModel) \<and>
   read Inr (coeffs.truncate sampleModel) (snd (read Inr (coeffs.truncate sampleModel) sampleModel))
     = (Inr False, snd (read Inr (coeffs.truncate sampleModel) sampleModel)) \<and>
   fst (read Inr (coeffs.truncate (sampleModel\<lparr>beta1 := 1\<rparr>)) sampleModel) = Inr True \<and>
   coeffs.truncate (snd (read Inr (coeffs.truncate (sampleModel\<lparr>beta1 := 1\<rparr>)) sampleModel))
     = coeffs.truncate (sampleModel\<lparr>beta1 := 1\<rparr>) \<and>
   k (snd (read Inr (coeffs.truncate (sampleModel\<lparr>beta1 := 1\<rparr>)) sampleModel)) = k sampleModel \<and>
   read (\<lambda>cfg. Inl cfg) ''beta1'' sampleModel = (Inl ''beta1'', sampleModel)"
proof -
  have changed: "coeffs.truncate (sampleModel\<lparr>beta1 := 1\<rparr>) \<noteq> coeffs.truncate sampleModel"
    by (simp add: coeffs.defs sampleModel_def)
  show ?thesis
    using read_frame_effect
      [where parse = Inr and cfg = "coeffs.truncate sampleModel" and m = sampleModel
         and cs = "coeffs.truncate sampleModel"]
      read_frame_effect
      [where parse = Inr and cfg = "coeffs.truncate (sampleModel\<lparr>beta1 := 1\<rparr>)"
         and m = sampleModel and cs = "coeffs.truncate (sampleModel\<lparr>beta1 := 1\<rparr>)"]
      read_frame_effect
      [where parse = "\<lambda>cfg. Inl cfg" and cfg = "''beta1''" and m = sampleModel
         and key = "''beta1''"]
      changed
    by simp
qed

end
